theory Spec2Isabelle
  imports Complex_Main
begin

section \<open>Donation matching service (main.py)\<close>

text \<open>
  The service matches one pending donation to the best unmet demand of the same
  category. Python floats are idealised as HOL reals throughout (\<open>math.sin\<close>,
  \<open>math.cos\<close>, \<open>math.sqrt\<close>, \<open>math.atan2\<close> as the real functions they approximate);
  Python ints are \<open>int\<close>; Python strings are byte strings in UTF-8, which preserves
  \<open>==\<close>. The rows of the two tables are records holding the columns the code reads;
  the demand's columns \<open>item_category\<close> and \<open>item_name\<close> carry the prefix
  \<open>demand_\<close> because the donation has columns of the same names.
\<close>

subsection \<open>Data model\<close>

record school =
  location_lat :: real
  location_lng :: real

record donation =
  donation_id :: int
  item_category :: string
  item_name :: string
  quantity :: int
  donor_lat :: real
  donor_lng :: real
  status :: string

record demand =
  demand_id :: int
  demand_item_category :: string
  demand_item_name :: string
  priority :: int
  quantity_needed :: int
  quantity_fulfilled :: int
  schools :: school

text \<open>The database behind the supabase client: the two tables, rows in query order.\<close>

record store =
  donations :: "donation list"
  demands :: "demand list"

datatype py_error = ValueError

subsection \<open>The math module\<close>

definition radians :: "real \<Rightarrow> real" where
  "radians x = x * (pi / 180)"

text \<open>\<open>math.sqrt\<close> raises ValueError (math domain error) below zero.\<close>

definition py_sqrt :: "real \<Rightarrow> py_error + real" where
  "py_sqrt x = (if x < 0 then Inl ValueError else Inr (sqrt x))"

text \<open>\<open>math.atan2(y, x)\<close>: the angle of the point \<open>(x, y)\<close>, in \<open>(-pi, pi]\<close>.\<close>

definition atan2 :: "real \<Rightarrow> real \<Rightarrow> real" where
  "atan2 y x =
     (if 0 < x then arctan (y / x)
      else if x < 0 \<and> 0 \<le> y then arctan (y / x) + pi
      else if x < 0 \<and> y < 0 then arctan (y / x) - pi
      else if 0 < y then pi / 2
      else if y < 0 then - (pi / 2)
      else 0)"

subsection \<open>calculate_distance\<close>

text \<open>The haversine term \<open>a\<close> of line 30.\<close>

definition haversine_a :: "real \<Rightarrow> real \<Rightarrow> real \<Rightarrow> real \<Rightarrow> real" where
  "haversine_a lat1 lon1 lat2 lon2 =
     (let dlat = radians (lat2 - lat1);
          dlon = radians (lon2 - lon1)
      in sin (dlat / 2) * sin (dlat / 2)
         + cos (radians lat1) * cos (radians lat2) * sin (dlon / 2) * sin (dlon / 2))"

definition calculate_distance :: "real \<Rightarrow> real \<Rightarrow> real \<Rightarrow> real \<Rightarrow> py_error + real" where
  "calculate_distance lat1 lon1 lat2 lon2 =
     (let R = 6371;
          a = haversine_a lat1 lon1 lat2 lon2
      in case py_sqrt a of
           Inl e \<Rightarrow> Inl e
         | Inr sa \<Rightarrow>
             (case py_sqrt (1 - a) of
                Inl e \<Rightarrow> Inl e
              | Inr sb \<Rightarrow> let c = 2 * atan2 sa sb in Inr (R * c)))"

subsection \<open>find_best_match\<close>

definition W_PRIORITY :: real where "W_PRIORITY = 0.5"
definition W_DISTANCE :: real where "W_DISTANCE = 0.3"
definition W_SUITABILITY :: real where "W_SUITABILITY = 0.2"
definition MAX_DISTANCE :: real where "MAX_DISTANCE = 200"

text \<open>Lines 67 to 75: the score of one candidate whose distance passed the cutoff.\<close>

definition total_score :: "donation \<Rightarrow> demand \<Rightarrow> real \<Rightarrow> real" where
  "total_score don dem dist_km =
     (let distance_score = (1 - (dist_km / MAX_DISTANCE)) * W_DISTANCE;
          priority_score = (real_of_int (priority dem) / 5) * W_PRIORITY;
          suitability_score =
            (if item_name don = demand_item_name dem then 1.0 * W_SUITABILITY else 0.0)
      in priority_score + distance_score + suitability_score)"

text \<open>The distance from the donor to the school of a demand (lines 61 to 64).\<close>

definition demand_distance :: "donation \<Rightarrow> demand \<Rightarrow> py_error + real" where
  "demand_distance don dem =
     calculate_distance (donor_lat don) (donor_lng don)
       (location_lat (schools dem)) (location_lng (schools dem))"

text \<open>
  The loop of lines 57 to 80, with the two loop variables \<open>best_match\<close> and
  \<open>best_score\<close> as arguments. An exception of \<open>calculate_distance\<close> leaves the loop.
\<close>

fun scan_demands ::
  "donation \<Rightarrow> demand list \<Rightarrow> demand option \<Rightarrow> real \<Rightarrow> py_error + demand option" where
  "scan_demands don [] best_match best_score = Inr best_match"
| "scan_demands don (dem # rest) best_match best_score =
     (case demand_distance don dem of
        Inl e \<Rightarrow> Inl e
      | Inr dist_km \<Rightarrow>
          if dist_km > MAX_DISTANCE then scan_demands don rest best_match best_score
          else if total_score don dem dist_km > best_score
               then scan_demands don rest (Some dem) (total_score don dem dist_km)
               else scan_demands don rest best_match best_score)"

text \<open>
  The query of lines 43 to 47: the demands of the donation's category whose
  \<open>quantity_fulfilled\<close> is below \<open>quantity_needed\<close>.
\<close>

definition potential_demands :: "store \<Rightarrow> donation \<Rightarrow> demand list" where
  "potential_demands db don =
     filter (\<lambda>dem. demand_item_category dem = item_category don
                  \<and> quantity_fulfilled dem < quantity_needed dem) (demands db)"

definition find_best_match :: "store \<Rightarrow> donation \<Rightarrow> py_error + demand option" where
  "find_best_match db don =
     (if potential_demands db don = [] then Inr None
      else scan_demands don (potential_demands db don) None (- 1))"

subsection \<open>match_donation\<close>

text \<open>
  The string literals of the source are Chinese; they are given by their UTF-8 bytes.
\<close>

text \<open>The status of a donation waiting for a match (''pending'').\<close>

definition STATUS_PENDING :: string where
  "STATUS_PENDING =
     [CHR 0xE5, CHR 0xBE, CHR 0x85, CHR 0xE5, CHR 0x8C, CHR 0xB9,
      CHR 0xE9, CHR 0x85, CHR 0x8D]"

text \<open>The status written by a match (''matched'').\<close>

definition STATUS_MATCHED :: string where
  "STATUS_MATCHED =
     [CHR 0xE5, CHR 0xB7, CHR 0xB2, CHR 0xE5, CHR 0x8C, CHR 0xB9,
      CHR 0xE9, CHR 0x85, CHR 0x8D]"

text \<open>The detail of the 404 of line 102: no pending donation with this id was found.\<close>

definition DETAIL_NO_PENDING_DONATION :: string where
  "DETAIL_NO_PENDING_DONATION =
     [CHR 0xE6, CHR 0x9C, CHR 0xAA, CHR 0xE6, CHR 0x89, CHR 0xBE,
      CHR 0xE5, CHR 0x88, CHR 0xB0, CHR 0xE8, CHR 0xAF, CHR 0xA5,
      CHR 0xE5, CHR 0xBE, CHR 0x85, CHR 0xE5, CHR 0x8C, CHR 0xB9,
      CHR 0xE9, CHR 0x85, CHR 0x8D, CHR 0xE7, CHR 0x9A, CHR 0x84,
      CHR 0xE6, CHR 0x8D, CHR 0x90, CHR 0xE8, CHR 0xB5, CHR 0xA0,
      CHR 0xE7, CHR 0x89, CHR 0xA9, CHR 0xE5, CHR 0x93, CHR 0x81]"

text \<open>The detail of the 404 of line 110: no suitable school was found.\<close>

definition DETAIL_NO_SUITABLE_SCHOOL :: string where
  "DETAIL_NO_SUITABLE_SCHOOL =
     [CHR 0xE6, CHR 0x9C, CHR 0xAA, CHR 0xE6, CHR 0x89, CHR 0xBE,
      CHR 0xE5, CHR 0x88, CHR 0xB0, CHR 0xE5, CHR 0x90, CHR 0x88,
      CHR 0xE9, CHR 0x80, CHR 0x82, CHR 0xE7, CHR 0x9A, CHR 0x84,
      CHR 0xE5, CHR 0x8C, CHR 0xB9, CHR 0xE9, CHR 0x85, CHR 0x8D,
      CHR 0xE5, CHR 0xAD, CHR 0xA6, CHR 0xE6, CHR 0xA0, CHR 0xA1]"

text \<open>The prefix of the detail of the 500 of line 128 (''database update failed: '').\<close>

definition DETAIL_UPDATE_FAILED :: string where
  "DETAIL_UPDATE_FAILED =
     [CHR 0xE6, CHR 0x9B, CHR 0xB4, CHR 0xE6, CHR 0x96, CHR 0xB0,
      CHR 0xE6, CHR 0x95, CHR 0xB0, CHR 0xE6, CHR 0x8D, CHR 0xAE,
      CHR 0xE5, CHR 0xBA, CHR 0x93, CHR 0xE5, CHR 0xA4, CHR 0xB1,
      CHR 0xE8, CHR 0xB4, CHR 0xA5, CHR 0x3A, CHR 0x20]"

text \<open>The message of the success payload (''matched'').\<close>

definition MESSAGE_SUCCESS :: string where
  "MESSAGE_SUCCESS =
     [CHR 0xE5, CHR 0x8C, CHR 0xB9, CHR 0xE9, CHR 0x85, CHR 0x8D,
      CHR 0xE6, CHR 0x88, CHR 0x90, CHR 0xE5, CHR 0x8A, CHR 0x9F,
      CHR 0xEF, CHR 0xBC, CHR 0x81]"

text \<open>
  What \<open>match_donation\<close> returns or raises: the payload of line 131 (message,
  donation, matched school, matched demand), an \<open>HTTPException\<close> with its status
  code and detail, or an exception that nothing catches.
\<close>

datatype response =
    MatchSuccess string donation school demand
  | HTTPException int string
  | Uncaught py_error

text \<open>
  The two writes go to a database that may refuse them. The environment of a call
  says, for each write, whether it raises and with which text (\<open>str(e)\<close>); a write
  that raises leaves the table as it was. Reads are taken to succeed.
\<close>

record faults =
  donation_update_error :: "string option"
  demand_update_error :: "string option"

text \<open>Lines 115 to 118: every row with this \<open>donation_id\<close> gets the new status.\<close>

definition update_donation_status :: "faults \<Rightarrow> store \<Rightarrow> int \<Rightarrow> string \<Rightarrow> string + store" where
  "update_donation_status env db did new_status =
     (case donation_update_error env of
        Some e \<Rightarrow> Inl e
      | None \<Rightarrow>
          Inr (db\<lparr>donations :=
                 map (\<lambda>row. if donation_id row = did then row\<lparr>status := new_status\<rparr> else row)
                   (donations db)\<rparr>))"

text \<open>Lines 122 to 125: every row with this \<open>demand_id\<close> gets the new count.\<close>

definition update_demand_fulfilled :: "faults \<Rightarrow> store \<Rightarrow> int \<Rightarrow> int \<Rightarrow> string + store" where
  "update_demand_fulfilled env db dem_id new_fulfilled =
     (case demand_update_error env of
        Some e \<Rightarrow> Inl e
      | None \<Rightarrow>
          Inr (db\<lparr>demands :=
                 map (\<lambda>row. if demand_id row = dem_id
                             then row\<lparr>quantity_fulfilled := new_fulfilled\<rparr> else row)
                   (demands db)\<rparr>))"

text \<open>The query of lines 95 to 99: the rows with this id and status pending.\<close>

definition pending_donations_by_id :: "store \<Rightarrow> int \<Rightarrow> donation list" where
  "pending_donations_by_id db did =
     filter (\<lambda>row. donation_id row = did \<and> status row = STATUS_PENDING) (donations db)"

text \<open>The endpoint: the response and the database after the call.\<close>

definition match_donation :: "faults \<Rightarrow> store \<Rightarrow> int \<Rightarrow> response \<times> store" where
  "match_donation env db did =
     (case pending_donations_by_id db did of
        [] \<Rightarrow> (HTTPException 404 DETAIL_NO_PENDING_DONATION, db)
      | don # _ \<Rightarrow>
          (case find_best_match db don of
             Inl e \<Rightarrow> (Uncaught e, db)
           | Inr None \<Rightarrow> (HTTPException 404 DETAIL_NO_SUITABLE_SCHOOL, db)
           | Inr (Some best_demand) \<Rightarrow>
               (case update_donation_status env db did STATUS_MATCHED of
                  Inl e \<Rightarrow> (HTTPException 500 (DETAIL_UPDATE_FAILED @ e), db)
                | Inr db1 \<Rightarrow>
                    (let new_fulfilled = quantity_fulfilled best_demand + quantity don
                     in case update_demand_fulfilled env db1 (demand_id best_demand) new_fulfilled of
                          Inl e \<Rightarrow> (HTTPException 500 (DETAIL_UPDATE_FAILED @ e), db1)
                        | Inr db2 \<Rightarrow>
                            (MatchSuccess MESSAGE_SUCCESS don (schools best_demand) best_demand,
                             db2)))))"

subsection \<open>Example data\<close>

text \<open>
  A donor on the equator at longitude 0, a school at the same place and one on the
  opposite side of the globe, and stores built from them.
\<close>

definition ex_school_near :: school where
  "ex_school_near = \<lparr>location_lat = 0, location_lng = 0\<rparr>"

definition ex_school_far :: school where
  "ex_school_far = \<lparr>location_lat = 0, location_lng = 180\<rparr>"

definition ex_donation :: donation where
  "ex_donation = \<lparr>donation_id = 7, item_category = ''books'', item_name = ''Math Textbook'',
     quantity = 10, donor_lat = 0, donor_lng = 0, status = STATUS_PENDING\<rparr>"

definition ex_demand_a :: demand where
  "ex_demand_a = \<lparr>demand_id = 1, demand_item_category = ''books'',
     demand_item_name = ''Math Textbook'', priority = 5, quantity_needed = 20,
     quantity_fulfilled = 0, schools = ex_school_near\<rparr>"

definition ex_demand_b :: demand where
  "ex_demand_b = \<lparr>demand_id = 2, demand_item_category = ''books'',
     demand_item_name = ''Math Textbook'', priority = 5, quantity_needed = 20,
     quantity_fulfilled = 0, schools = ex_school_near\<rparr>"

definition ex_demand_far :: demand where
  "ex_demand_far = \<lparr>demand_id = 3, demand_item_category = ''books'',
     demand_item_name = ''Math Textbook'', priority = 5, quantity_needed = 20,
     quantity_fulfilled = 0, schools = ex_school_far\<rparr>"

definition ex_demand_small :: demand where
  "ex_demand_small = \<lparr>demand_id = 4, demand_item_category = ''books'',
     demand_item_name = ''Novel'', priority = 1, quantity_needed = 5,
     quantity_fulfilled = 0, schools = ex_school_near\<rparr>"

definition ex_store_tie :: store where
  "ex_store_tie = \<lparr>donations = [ex_donation], demands = [ex_demand_a, ex_demand_b]\<rparr>"

definition ex_store_far :: store where
  "ex_store_far = \<lparr>donations = [ex_donation], demands = [ex_demand_far, ex_demand_small]\<rparr>"

definition ex_store_small :: store where
  "ex_store_small = \<lparr>donations = [ex_donation], demands = [ex_demand_small]\<rparr>"

text \<open>Environments in which both writes succeed, and in which the second one raises.\<close>

definition ex_no_faults :: faults where
  "ex_no_faults = \<lparr>donation_update_error = None, demand_update_error = None\<rparr>"

definition ex_demand_write_fails :: faults where
  "ex_demand_write_fails =
     \<lparr>donation_update_error = None, demand_update_error = Some ''connection reset''\<rparr>"

section \<open>Properties\<close>

subsection \<open>The distance is total, zero on a point and symmetric\<close>

lemma radians_diff: "radians (x - y) = radians x - radians y"
  by (simp add: radians_def left_diff_distrib)




lemma haversine_a_self: "haversine_a lat lon lat lon = 0"
  by (simp add: haversine_a_def radians_def)

lemma half_angle_diff:
  fixes x y :: real
  shows "sin ((x - y) / 2) * sin ((x - y) / 2) = (1 - cos (x - y)) / 2"
proof -
  define z where "z = (x - y) / 2"
  have xy: "x - y = 2 * z" by (simp add: z_def)
  have "cos (2 * z) = 1 - 2 * (sin z)\<^sup>2" by (rule cos_double_sin)
  then have "sin z * sin z = (1 - cos (2 * z)) / 2" by (simp add: power2_eq_square)
  then show ?thesis unfolding xy by simp
qed

lemma haversine_a_convex:
  "haversine_a lat1 lon1 lat2 lon2 =
     (1 - (sin (radians (lon2 - lon1) / 2))\<^sup>2) * ((1 - cos (radians lat2 - radians lat1)) / 2)
     + (sin (radians (lon2 - lon1) / 2))\<^sup>2 * ((1 + cos (radians lat2 + radians lat1)) / 2)"
proof -
  define s where "s = sin (radians (lon2 - lon1) / 2)"
  define c1 where "c1 = cos (radians lat1)"
  define c2 where "c2 = cos (radians lat2)"
  define s1 where "s1 = sin (radians lat1)"
  define s2 where "s2 = sin (radians lat2)"
  have lhs: "haversine_a lat1 lon1 lat2 lon2 = (1 - (c2 * c1 + s2 * s1)) / 2 + c1 * c2 * s * s"
    unfolding haversine_a_def Let_def radians_diff [of lat2 lat1] half_angle_diff
    by (simp add: cos_diff s_def c1_def c2_def s1_def s2_def)
  have d: "cos (radians lat2 - radians lat1) = c2 * c1 + s2 * s1"
    by (simp add: cos_diff c1_def c2_def s1_def s2_def)
  have a: "cos (radians lat2 + radians lat1) = c2 * c1 - s2 * s1"
    by (simp add: cos_add c1_def c2_def s1_def s2_def)
  have "(1 - (c2 * c1 + s2 * s1)) / 2 + c1 * c2 * s * s
        = (1 - s\<^sup>2) * ((1 - (c2 * c1 + s2 * s1)) / 2) + s\<^sup>2 * ((1 + (c2 * c1 - s2 * s1)) / 2)"
    by (simp add: power2_eq_square field_simps)
  then show ?thesis
    unfolding lhs d a s_def by simp
qed

lemma half_one_plus_nonneg: "- 1 \<le> (c::real) \<Longrightarrow> 0 \<le> (1 + c) / 2"
  by simp

lemma haversine_a_bounds:
  "0 \<le> haversine_a lat1 lon1 lat2 lon2 \<and> haversine_a lat1 lon1 lat2 lon2 \<le> 1"
proof -
  define t where "t = (sin (radians (lon2 - lon1) / 2))\<^sup>2"
  define A where "A = (1 - cos (radians lat2 - radians lat1)) / 2"
  define B where "B = (1 + cos (radians lat2 + radians lat1)) / 2"
  have t: "0 \<le> t" "t \<le> 1" by (simp_all add: t_def abs_square_le_1)
  have A0: "0 \<le> A" unfolding A_def
    using cos_le_one [of "radians lat2 - radians lat1"] by simp
  have A1: "A \<le> 1" unfolding A_def
    using cos_ge_minus_one [of "radians lat2 - radians lat1"] by simp
  have B0: "0 \<le> B" unfolding B_def
    by (rule half_one_plus_nonneg) (rule cos_ge_minus_one)
  have B1: "B \<le> 1" unfolding B_def
    using cos_le_one [of "radians lat2 + radians lat1"] by simp
  note A = A0 A1 and B = B0 B1
  have eq: "haversine_a lat1 lon1 lat2 lon2 = (1 - t) * A + t * B"
    unfolding t_def A_def B_def by (rule haversine_a_convex)
  have lo: "0 \<le> (1 - t) * A + t * B" using t A B by simp
  have "(1 - t) * A \<le> (1 - t) * 1" using t A by (intro mult_left_mono) simp_all
  moreover have "t * B \<le> t * 1" using t B by (intro mult_left_mono) simp_all
  ultimately have hi: "(1 - t) * A + t * B \<le> 1" by simp
  show ?thesis using eq lo hi by simp
qed

lemma calculate_distance_total:
  "calculate_distance lat1 lon1 lat2 lon2 =
     Inr (6371 * (2 * atan2 (sqrt (haversine_a lat1 lon1 lat2 lon2))
                              (sqrt (1 - haversine_a lat1 lon1 lat2 lon2))))"
  using haversine_a_bounds [of lat1 lon1 lat2 lon2]
  by (simp add: calculate_distance_def py_sqrt_def Let_def)

lemma calculate_distance_self: "calculate_distance lat lon lat lon = Inr 0"
  by (simp add: calculate_distance_total haversine_a_self atan2_def)


lemma calculate_distance_far: "calculate_distance 0 0 0 180 = Inr (6371 * pi)"
  by (simp add: calculate_distance_total haversine_a_def radians_def atan2_def)


subsection \<open>The score\<close>

text \<open>
  C2: the score of a candidate is (priority / 5) * 0.5 + (1 - d / 200) * 0.3 plus 0.2
  when the donation's item name equals the demand's, byte for byte, and plus 0 otherwise.
\<close>

theorem C2_score_formula:
  "total_score don dem d =
     (real_of_int (priority dem) / 5) * 0.5 + (1 - d / 200) * 0.3
     + (if item_name don = demand_item_name dem then 0.2 else 0.0)"
  by (simp add: total_score_def W_PRIORITY_def W_DISTANCE_def W_SUITABILITY_def
      MAX_DISTANCE_def Let_def)

lemma total_score_linear:
  "total_score don dem d =
     real_of_int (priority dem) / 10 + (3 / 10 - 3 * d / 2000)
     + (if item_name don = demand_item_name dem then 1 / 5 else 0)"
  by (simp add: total_score_def W_PRIORITY_def W_DISTANCE_def W_SUITABILITY_def
      MAX_DISTANCE_def Let_def field_simps)

lemma total_score_lower:
  assumes "0 \<le> priority dem" and "d \<le> 200"
  shows "0 \<le> total_score don dem d"
proof -
  have p: "0 \<le> real_of_int (priority dem)" using assms(1) by simp
  show ?thesis
    unfolding total_score_linear using p assms(2)
    by (cases "item_name don = demand_item_name dem") simp_all
qed

lemma total_score_upper:
  assumes "priority dem \<le> 5" and "0 \<le> d"
  shows "total_score don dem d \<le> 1"
proof -
  have p: "real_of_int (priority dem) \<le> 5" using assms(1) by linarith
  show ?thesis
    unfolding total_score_linear using p assms(2)
    by (cases "item_name don = demand_item_name dem") simp_all
qed

text \<open>
  C7: for a priority from 0 to 5 and a distance from 0 to 200 km the score lies between
  0 and 1, both included.
\<close>

theorem C7_score_in_unit_interval:
  assumes "0 \<le> priority dem" and "priority dem \<le> 5" and "0 \<le> d" and "d \<le> 200"
  shows "0 \<le> total_score don dem d \<and> total_score don dem d \<le> 1"
  using total_score_lower [OF assms(1) assms(4)] total_score_upper [OF assms(2) assms(3)]
  by simp

theorem C7_score_in_unit_interval_witness:
  "total_score ex_donation ex_demand_a 0 = 1
   \<and> 0 \<le> total_score ex_donation ex_demand_a 0 \<and> total_score ex_donation ex_demand_a 0 \<le> 1"
  using C7_score_in_unit_interval [of ex_demand_a 0 ex_donation]
  by (simp add: ex_demand_a_def ex_donation_def total_score_def W_PRIORITY_def W_DISTANCE_def
      W_SUITABILITY_def MAX_DISTANCE_def)



subsection \<open>The scan over the candidates\<close>

lemma demand_distance_total: "\<exists>d. demand_distance don dem = Inr d"
  by (simp add: demand_distance_def calculate_distance_total)

lemma scan_demands_skip:
  "demand_distance don x = Inr dx \<Longrightarrow> MAX_DISTANCE < dx \<Longrightarrow>
   scan_demands don (x # rest) bm bs = scan_demands don rest bm bs"
  by simp

lemma scan_demands_adopt:
  "demand_distance don x = Inr dx \<Longrightarrow> dx \<le> MAX_DISTANCE \<Longrightarrow> bs < total_score don x dx \<Longrightarrow>
   scan_demands don (x # rest) bm bs = scan_demands don rest (Some x) (total_score don x dx)"
  by simp


lemma scan_demands_in_range:
  assumes "scan_demands don xs bm bs = Inr (Some m)"
    and "\<And>b. bm = Some b \<Longrightarrow> \<exists>d. demand_distance don b = Inr d \<and> d \<le> MAX_DISTANCE"
  shows "\<exists>d. demand_distance don m = Inr d \<and> d \<le> MAX_DISTANCE"
  using assms
proof (induction xs arbitrary: bm bs)
  case Nil
  then show ?case by simp
next
  case (Cons x xs)
  obtain dx where dx: "demand_distance don x = Inr dx"
    using demand_distance_total by blast
  show ?case
  proof (cases "MAX_DISTANCE < dx")
    case True
    with Cons.prems(1) dx have "scan_demands don xs bm bs = Inr (Some m)" by simp
    then show ?thesis using Cons.IH Cons.prems(2) by blast
  next
    case near: False
    show ?thesis
    proof (cases "bs < total_score don x dx")
      case True
      with Cons.prems(1) dx near
      have "scan_demands don xs (Some x) (total_score don x dx) = Inr (Some m)" by simp
      moreover have "\<And>b. Some x = Some b \<Longrightarrow> \<exists>d. demand_distance don b = Inr d \<and> d \<le> MAX_DISTANCE"
        using dx near by auto
      ultimately show ?thesis using Cons.IH by blast
    next
      case False
      with Cons.prems(1) dx near have "scan_demands don xs bm bs = Inr (Some m)" by simp
      then show ?thesis using Cons.IH Cons.prems(2) by blast
    qed
  qed
qed





subsection \<open>The example data, evaluated\<close>

lemmas ex_defs = ex_school_near_def ex_school_far_def ex_donation_def ex_demand_a_def
  ex_demand_b_def ex_demand_far_def ex_demand_small_def ex_store_tie_def ex_store_far_def
  ex_store_small_def

lemma far_beyond_cutoff: "MAX_DISTANCE < 6371 * pi"
proof -
  have "(200::real) < 6371 * 2" by simp
  also have "\<dots> \<le> 6371 * pi" using pi_ge_two by simp
  finally show ?thesis by (simp add: MAX_DISTANCE_def)
qed

lemma ex_distance_near [simp]:
  "demand_distance ex_donation ex_demand_a = Inr 0"
  "demand_distance ex_donation ex_demand_b = Inr 0"
  "demand_distance ex_donation ex_demand_small = Inr 0"
  by (simp_all add: demand_distance_def ex_defs calculate_distance_self)

lemma ex_distance_far [simp]:
  "demand_distance ex_donation ex_demand_far = Inr (6371 * pi)"
  by (simp add: demand_distance_def ex_defs calculate_distance_far)

lemma ex_scores [simp]:
  "total_score ex_donation ex_demand_a 0 = 1"
  "total_score ex_donation ex_demand_b 0 = 1"
  "total_score ex_donation ex_demand_small 0 = 2 / 5"
  by (simp_all add: total_score_linear ex_defs)

lemma ex_potential [simp]:
  "potential_demands ex_store_tie ex_donation = [ex_demand_a, ex_demand_b]"
  "potential_demands ex_store_far ex_donation = [ex_demand_far, ex_demand_small]"
  "potential_demands ex_store_small ex_donation = [ex_demand_small]"
  by (simp_all add: potential_demands_def ex_defs)

lemma ex_find_best_match [simp]:
  "find_best_match ex_store_tie ex_donation = Inr (Some ex_demand_a)"
  "find_best_match ex_store_far ex_donation = Inr (Some ex_demand_small)"
  "find_best_match ex_store_small ex_donation = Inr (Some ex_demand_small)"
  using far_beyond_cutoff
  by (simp_all add: find_best_match_def MAX_DISTANCE_def)

subsection \<open>What find_best_match returns\<close>




text \<open>
  C4: a demand that \<open>find_best_match\<close> returns lies at most 200 km from the donor, and a
  demand more than 200 km away is never the one returned, whatever its priority and
  item name.
\<close>

theorem C4_match_within_cutoff:
  "(find_best_match db don = Inr (Some dem)
      \<longrightarrow> (\<exists>d. demand_distance don dem = Inr d \<and> d \<le> 200))
   \<and> (demand_distance don x = Inr dx \<and> 200 < dx \<longrightarrow> find_best_match db don \<noteq> Inr (Some x))"
proof -
  have in_range: "\<exists>d. demand_distance don m = Inr d \<and> d \<le> 200"
    if "find_best_match db don = Inr (Some m)" for m
  proof -
    from that have "scan_demands don (potential_demands db don) None (- 1) = Inr (Some m)"
      by (simp add: find_best_match_def split: if_splits)
    then have "\<exists>d. demand_distance don m = Inr d \<and> d \<le> MAX_DISTANCE"
      by (rule scan_demands_in_range) simp
    then show ?thesis by (simp add: MAX_DISTANCE_def)
  qed
  have "find_best_match db don \<noteq> Inr (Some x)"
    if "demand_distance don x = Inr dx" "200 < dx"
    using in_range [of x] that by auto
  with in_range show ?thesis by blast
qed

theorem C4_match_within_cutoff_witness:
  "find_best_match ex_store_far ex_donation = Inr (Some ex_demand_small)
   \<and> demand_distance ex_donation ex_demand_small = Inr 0
   \<and> demand_distance ex_donation ex_demand_far = Inr (6371 * pi)
   \<and> 200 < 6371 * pi
   \<and> priority ex_demand_small < priority ex_demand_far
   \<and> find_best_match ex_store_far ex_donation \<noteq> Inr (Some ex_demand_far)"
proof -
  have far: "200 < 6371 * pi" using far_beyond_cutoff by (simp add: MAX_DISTANCE_def)
  have pr: "priority ex_demand_small < priority ex_demand_far"
    by (simp add: ex_demand_small_def ex_demand_far_def)
  from C4_match_within_cutoff [of ex_store_far ex_donation ex_demand_small ex_demand_far "6371 * pi"]
  have "find_best_match ex_store_far ex_donation \<noteq> Inr (Some ex_demand_far)"
    using far by simp
  with far pr show ?thesis by simp
qed



subsection \<open>match_donation\<close>

lemma status_matched_not_pending: "STATUS_MATCHED \<noteq> STATUS_PENDING"
  by (simp add: STATUS_MATCHED_def STATUS_PENDING_def)


lemma no_pending_after_map:
  "filter (\<lambda>row. donation_id row = did \<and> status row = STATUS_PENDING)
     (map (\<lambda>row. if donation_id row = did then row\<lparr>status := STATUS_MATCHED\<rparr> else row) xs)
   = []"
  by (induction xs) (simp_all add: status_matched_not_pending)

lemma pending_after_status_update:
  "pending_donations_by_id
     (db\<lparr>donations :=
        map (\<lambda>row. if donation_id row = did then row\<lparr>status := STATUS_MATCHED\<rparr> else row)
          (donations db)\<rparr>) did = []"
  by (simp add: pending_donations_by_id_def no_pending_after_map)

lemma pending_donations_demands_update:
  "pending_donations_by_id (db\<lparr>demands := ds\<rparr>) did = pending_donations_by_id db did"
  by (simp add: pending_donations_by_id_def)

lemma match_donation_not_pending:
  "pending_donations_by_id db did = [] \<Longrightarrow>
   match_donation env db did = (HTTPException 404 DETAIL_NO_PENDING_DONATION, db)"
  by (simp add: match_donation_def)

text \<open>What a call that reaches the two writes returns, by what the writes do.\<close>

lemma match_donation_commit:
  assumes "pending_donations_by_id db did = don # rest"
    and "find_best_match db don = Inr (Some dem)"
  shows "match_donation env db did =
     (case donation_update_error env of
        Some e \<Rightarrow> (HTTPException 500 (DETAIL_UPDATE_FAILED @ e), db)
      | None \<Rightarrow>
          (case demand_update_error env of
             Some e \<Rightarrow>
               (HTTPException 500 (DETAIL_UPDATE_FAILED @ e),
                db\<lparr>donations :=
                     map (\<lambda>row. if donation_id row = did then row\<lparr>status := STATUS_MATCHED\<rparr>
                                 else row) (donations db)\<rparr>)
           | None \<Rightarrow>
               (MatchSuccess MESSAGE_SUCCESS don (schools dem) dem,
                db\<lparr>donations :=
                     map (\<lambda>row. if donation_id row = did then row\<lparr>status := STATUS_MATCHED\<rparr>
                                 else row) (donations db),
                   demands :=
                     map (\<lambda>row. if demand_id row = demand_id dem
                                 then row\<lparr>quantity_fulfilled :=
                                            quantity_fulfilled dem + quantity don\<rparr>
                                 else row) (demands db)\<rparr>)))"
  using assms
  by (simp add: match_donation_def update_donation_status_def update_demand_fulfilled_def
      Let_def split: option.splits)

text \<open>A success comes from the commit branch with both writes done.\<close>

lemma match_donation_success:
  assumes "match_donation env db did = (MatchSuccess msg don sch dem, db')"
  shows "(\<exists>rest. pending_donations_by_id db did = don # rest)
         \<and> find_best_match db don = Inr (Some dem)
         \<and> donations db' =
             map (\<lambda>row. if donation_id row = did then row\<lparr>status := STATUS_MATCHED\<rparr> else row)
               (donations db)
         \<and> demands db' =
             map (\<lambda>row. if demand_id row = demand_id dem
                         then row\<lparr>quantity_fulfilled := quantity_fulfilled dem + quantity don\<rparr>
                         else row) (demands db)"
  using assms
  by (auto simp: match_donation_def update_donation_status_def update_demand_fulfilled_def
      Let_def split: list.splits sum.splits option.splits)




text \<open>
  C5: when a call reaches the two writes, the write of the donation's status succeeds
  and the write of the demand's \<open>quantity_fulfilled\<close> raises, the call ends in the
  HTTPException 500 whose detail is the update-failed prefix followed by the text of the
  exception; the rows of the donation keep the status matched, and no demand has changed.
\<close>

theorem C5_second_write_failure_keeps_first_write:
  assumes "pending_donations_by_id db did = don # rest"
    and "find_best_match db don = Inr (Some dem)"
    and "donation_update_error env = None"
    and "demand_update_error env = Some e"
  shows "fst (match_donation env db did) = HTTPException 500 (DETAIL_UPDATE_FAILED @ e)
         \<and> donations (snd (match_donation env db did)) =
             map (\<lambda>row. if donation_id row = did then row\<lparr>status := STATUS_MATCHED\<rparr> else row)
               (donations db)
         \<and> don\<lparr>status := STATUS_MATCHED\<rparr> \<in> set (donations (snd (match_donation env db did)))
         \<and> pending_donations_by_id (snd (match_donation env db did)) did = []
         \<and> demands (snd (match_donation env db did)) = demands db"
proof -
  have m: "match_donation env db did =
      (HTTPException 500 (DETAIL_UPDATE_FAILED @ e),
       db\<lparr>donations :=
            map (\<lambda>row. if donation_id row = did then row\<lparr>status := STATUS_MATCHED\<rparr> else row)
              (donations db)\<rparr>)"
    unfolding match_donation_commit [OF assms(1,2)] using assms(3,4) by simp
  have "don \<in> set (pending_donations_by_id db did)" using assms(1) by simp
  then have mem: "don \<in> set (donations db)" and id: "donation_id don = did"
    by (simp_all add: pending_donations_by_id_def)
  have new: "don\<lparr>status := STATUS_MATCHED\<rparr>
      \<in> set (map (\<lambda>row. if donation_id row = did then row\<lparr>status := STATUS_MATCHED\<rparr> else row)
               (donations db))"
    using mem id by force
  show ?thesis
    unfolding m using new by (simp add: pending_after_status_update)
qed

theorem C5_second_write_failure_keeps_first_write_witness:
  "match_donation ex_demand_write_fails ex_store_tie 7 =
     (HTTPException 500 (DETAIL_UPDATE_FAILED @ ''connection reset''),
      \<lparr>donations = [ex_donation\<lparr>status := STATUS_MATCHED\<rparr>],
       demands = [ex_demand_a, ex_demand_b]\<rparr>)"
proof -
  have p: "pending_donations_by_id ex_store_tie 7 = ex_donation # []"
    by (simp add: pending_donations_by_id_def ex_store_tie_def ex_donation_def)
  have f: "find_best_match ex_store_tie ex_donation = Inr (Some ex_demand_a)" by simp
  have w1: "donation_update_error ex_demand_write_fails = None"
    by (simp add: ex_demand_write_fails_def)
  have w2: "demand_update_error ex_demand_write_fails = Some ''connection reset''"
    by (simp add: ex_demand_write_fails_def)
  note c = C5_second_write_failure_keeps_first_write [OF p f w1 w2]
  have d: "donations (snd (match_donation ex_demand_write_fails ex_store_tie 7))
           = [ex_donation\<lparr>status := STATUS_MATCHED\<rparr>]"
    using c by (simp add: ex_store_tie_def ex_donation_def)
  have q: "demands (snd (match_donation ex_demand_write_fails ex_store_tie 7))
           = [ex_demand_a, ex_demand_b]"
    using c by (simp add: ex_store_tie_def)
  have r: "fst (match_donation ex_demand_write_fails ex_store_tie 7)
           = HTTPException 500 (DETAIL_UPDATE_FAILED @ ''connection reset'')"
    using c by blast
  obtain resp db' where eq: "match_donation ex_demand_write_fails ex_store_tie 7 = (resp, db')"
    by (cases "match_donation ex_demand_write_fails ex_store_tie 7")
  have "db' = \<lparr>donations = [ex_donation\<lparr>status := STATUS_MATCHED\<rparr>],
               demands = [ex_demand_a, ex_demand_b]\<rparr>"
    using d q eq by (cases db') simp
  then show ?thesis using r eq by simp
qed

text \<open>
  C6: when no stored donation with the given id has the status pending, the call ends
  in the HTTPException 404 of the fetch (no pending donation with this id) and leaves
  the database as it was. After a successful call every row of that id has the status
  matched, so a second call with the same id ends in that 404, whatever the writes
  would do.
\<close>

theorem C6_not_pending_is_not_found:
  "((\<forall>row\<in>set (donations db). donation_id row = did \<longrightarrow> status row \<noteq> STATUS_PENDING)
      \<longrightarrow> match_donation env db did = (HTTPException 404 DETAIL_NO_PENDING_DONATION, db))
   \<and> (match_donation env1 db0 did = (MatchSuccess msg don sch dem, db1)
      \<longrightarrow> match_donation env2 db1 did = (HTTPException 404 DETAIL_NO_PENDING_DONATION, db1))"
proof -
  have first: "match_donation env db did = (HTTPException 404 DETAIL_NO_PENDING_DONATION, db)"
    if "\<forall>row\<in>set (donations db). donation_id row = did \<longrightarrow> status row \<noteq> STATUS_PENDING"
  proof -
    from that have "pending_donations_by_id db did = []"
      by (auto simp: pending_donations_by_id_def filter_empty_conv)
    then show ?thesis by (rule match_donation_not_pending)
  qed
  have second: "match_donation env2 db1 did = (HTTPException 404 DETAIL_NO_PENDING_DONATION, db1)"
    if "match_donation env1 db0 did = (MatchSuccess msg don sch dem, db1)"
  proof -
    from match_donation_success [OF that]
    have "donations db1 =
        map (\<lambda>row. if donation_id row = did then row\<lparr>status := STATUS_MATCHED\<rparr> else row)
          (donations db0)"
      by blast
    then have "pending_donations_by_id db1 did = []"
      by (simp add: pending_donations_by_id_def no_pending_after_map)
    then show ?thesis by (rule match_donation_not_pending)
  qed
  from first second show ?thesis by blast
qed

theorem C6_not_pending_is_not_found_witness:
  "fst (match_donation ex_no_faults ex_store_tie 7)
     = MatchSuccess MESSAGE_SUCCESS ex_donation ex_school_near ex_demand_a
   \<and> match_donation ex_no_faults (snd (match_donation ex_no_faults ex_store_tie 7)) 7
     = (HTTPException 404 DETAIL_NO_PENDING_DONATION,
        snd (match_donation ex_no_faults ex_store_tie 7))
   \<and> match_donation ex_no_faults ex_store_tie 8
     = (HTTPException 404 DETAIL_NO_PENDING_DONATION, ex_store_tie)"
proof -
  have p: "pending_donations_by_id ex_store_tie 7 = ex_donation # []"
    by (simp add: pending_donations_by_id_def ex_store_tie_def ex_donation_def)
  have f: "find_best_match ex_store_tie ex_donation = Inr (Some ex_demand_a)" by simp
  have m: "fst (match_donation ex_no_faults ex_store_tie 7)
      = MatchSuccess MESSAGE_SUCCESS ex_donation ex_school_near ex_demand_a"
    unfolding match_donation_commit [OF p f]
    by (simp add: ex_no_faults_def ex_demand_a_def)
  then have s: "match_donation ex_no_faults ex_store_tie 7 =
      (MatchSuccess MESSAGE_SUCCESS ex_donation ex_school_near ex_demand_a,
       snd (match_donation ex_no_faults ex_store_tie 7))"
    by (cases "match_donation ex_no_faults ex_store_tie 7") simp
  have n: "\<forall>row\<in>set (donations ex_store_tie). donation_id row = 8 \<longrightarrow> status row \<noteq> STATUS_PENDING"
    by (simp add: ex_store_tie_def ex_donation_def)
  note again = C6_not_pending_is_not_found
    [where did = 7 and ?env1.0 = ex_no_faults and ?db0.0 = ex_store_tie
       and msg = MESSAGE_SUCCESS and don = ex_donation and sch = ex_school_near
       and dem = ex_demand_a and ?db1.0 = "snd (match_donation ex_no_faults ex_store_tie 7)"
       and ?env2.0 = ex_no_faults]
  note absent = C6_not_pending_is_not_found
    [where db = ex_store_tie and did = 8 and env = ex_no_faults]
  from again absent s n m
  show ?thesis by blast
qed

end
